theory Spec2Isabelle
  imports Main
begin

section \<open>The tracker client of \<^verbatim>\<open>yatracker/tracker/client.py\<close>\<close>

text \<open>
  The module defines an abstract \<^verbatim>\<open>BaseClient\<close> (construction of the default headers,
  the \<^verbatim>\<open>request\<close> facade over an abstract \<^verbatim>\<open>_make_request\<close>, the static
  \<^verbatim>\<open>_check_status\<close>) and the concrete \<^verbatim>\<open>AIOHTTPClient\<close> (session caching,
  \<^verbatim>\<open>_make_request\<close>, \<^verbatim>\<open>_prepare_form\<close>, \<^verbatim>\<open>_process_exception\<close>, \<^verbatim>\<open>close\<close>).
  Python names that start with an underscore lose it here.
\<close>

subsection \<open>Python values and exceptions\<close>

text \<open>
  The values that flow through the client as payloads, response data and exception
  arguments. A \<^verbatim>\<open>dict\<close> keeps its items in insertion order. Of the numbers only the
  integers are kept.
\<close>

datatype pyval =
    PNone
  | PBool bool
  | PInt int
  | PStr string
  | PList "pyval list"
  | PDict "(string \<times> pyval) list"

text \<open>Truth value of a Python object, as the operator \<^verbatim>\<open>or\<close> tests it.\<close>

fun truthy :: "pyval \<Rightarrow> bool" where
  "truthy PNone = False"
| "truthy (PBool b) = b"
| "truthy (PInt i) = (i \<noteq> 0)"
| "truthy (PStr s) = (s \<noteq> [])"
| "truthy (PList xs) = (xs \<noteq> [])"
| "truthy (PDict kvs) = (kvs \<noteq> [])"

definition py_or :: "pyval \<Rightarrow> pyval \<Rightarrow> pyval" where
  "py_or a b = (if truthy a then a else b)"

text \<open>\<^verbatim>\<open>d.get(k)\<close>: the value stored under the key, \<^verbatim>\<open>None\<close> when it is absent.\<close>

definition dict_get :: "(string \<times> pyval) list \<Rightarrow> string \<Rightarrow> pyval" where
  "dict_get d k = (case map_of d k of None \<Rightarrow> PNone | Some v \<Rightarrow> v)"

text \<open>
  The exceptions of \<^verbatim>\<open>yatracker.exceptions\<close> that the module raises, the
  \<^verbatim>\<open>TypeError\<close> of \<^verbatim>\<open>_prepare_file\<close>, and the errors of the collaborators, each
  with its message: the operating system opening a file, the constructor of a session
  refusing a base URL, the HTTP transport, the JSON encoder. A collaborator never raises
  one of the tracker's own exceptions.
\<close>

datatype error =
    NotAuthorizedError
  | SufficientRightsError
  | ObjectNotFoundError
  | AlreadyExistsError
  | YaTrackerError pyval
  | TypeError string
  | OSError string
  | ValueError string
  | ClientError string
  | EncodeError string

subsection \<open>The status translator\<close>

text \<open>The members of \<^verbatim>\<open>http.HTTPStatus\<close> that \<^verbatim>\<open>_check_status\<close> compares with.\<close>

definition MULTIPLE_CHOICES :: int where "MULTIPLE_CHOICES = 300"
definition UNAUTHORIZED :: int where "UNAUTHORIZED = 401"
definition FORBIDDEN :: int where "FORBIDDEN = 403"
definition NOT_FOUND :: int where "NOT_FOUND = 404"
definition CONFLICT :: int where "CONFLICT = 409"

definition check_status :: "int \<Rightarrow> pyval \<Rightarrow> error + unit" where
  "check_status status text =
     (if status < MULTIPLE_CHOICES then Inr ()
      else if status = UNAUTHORIZED then Inl NotAuthorizedError
      else if status = FORBIDDEN then Inl SufficientRightsError
      else if status = NOT_FOUND then Inl ObjectNotFoundError
      else if status = CONFLICT then Inl AlreadyExistsError
      else Inl (YaTrackerError text))"

subsection \<open>Construction of the client\<close>

definition DEFAULT_API_HOST :: string where
  "DEFAULT_API_HOST = ''https://api.tracker.yandex.net''"

definition DEFAULT_API_VERSION :: string where
  "DEFAULT_API_VERSION = ''v2''"

text \<open>
  \<^verbatim>\<open>org_id: str | int\<close>, and \<^verbatim>\<open>str(org_id)\<close>: a string is itself, an integer is
  written in decimal with a minus sign when negative.
\<close>

datatype org_id = OrgStr string | OrgInt int

fun str_nat :: "nat \<Rightarrow> string" where
  "str_nat n =
     (if n < 10 then [''0123456789'' ! n]
      else str_nat (n div 10) @ [''0123456789'' ! (n mod 10)])"

declare str_nat.simps [simp del]

fun str :: "org_id \<Rightarrow> string" where
  "str (OrgStr s) = s"
| "str (OrgInt i) = (if i < 0 then ''-'' @ str_nat (nat (- i)) else str_nat (nat i))"

text \<open>\<^verbatim>\<open>x or default\<close> on an optional string: \<^verbatim>\<open>None\<close> and the empty string are false.\<close>

definition str_or :: "string option \<Rightarrow> string \<Rightarrow> string" where
  "str_or x d = (case x of None \<Rightarrow> d | Some s \<Rightarrow> if s = [] then d else s)"

text \<open>\<^verbatim>\<open>d.setdefault(k, v)\<close> stores \<open>v\<close> under \<open>k\<close> only when \<open>k\<close> is not a key of \<open>d\<close>.\<close>

definition setdefault :: "string \<Rightarrow> string \<Rightarrow> (string \<times> string) list \<Rightarrow> (string \<times> string) list" where
  "setdefault k v d = (case map_of d k of Some _ \<Rightarrow> d | None \<Rightarrow> d @ [(k, v)])"

record BaseClient =
  api_version :: string
  base_url :: string
  headers :: "(string \<times> string) list"
  session :: "nat option"

text \<open>
  \<^verbatim>\<open>BaseClient.__init__\<close>. The field \<open>session\<close> is a reference into the heap of sessions
  below, \<^verbatim>\<open>None\<close> until the first request. The JSON encoder that the constructor stores
  in \<^verbatim>\<open>_encoder\<close> belongs to \<^verbatim>\<open>msgspec\<close>; \<open>request\<close> takes it as an argument.
\<close>

definition BaseClient_init ::
  "org_id \<Rightarrow> string \<Rightarrow> (string \<times> string) list option \<Rightarrow> string option \<Rightarrow> string option
     \<Rightarrow> BaseClient" where
  "BaseClient_init org token hdrs api_host api_ver =
     (let h0 = (case hdrs of None \<Rightarrow> [] | Some d \<Rightarrow> if d = [] then [] else d);
          h1 = setdefault ''X-Org-Id'' (str org) h0;
          h2 = setdefault ''Authorization'' (''OAuth '' @ token) h1
      in \<lparr>api_version = str_or api_ver DEFAULT_API_VERSION,
          base_url = str_or api_host DEFAULT_API_HOST,
          headers = h2,
          session = None\<rparr>)"

text \<open>
  \<^verbatim>\<open>aiohttp.ClientTimeout\<close>; the module sets only \<open>total\<close>. An instance is always true,
  so \<^verbatim>\<open>kwargs.get("timeout") or ClientTimeout(total=0)\<close> takes the default exactly when the
  keyword is absent (or false).
\<close>

datatype ClientTimeout = ClientTimeout (total: "int option")

record AIOHTTPClient = BaseClient +
  timeout :: ClientTimeout

definition AIOHTTPClient_init ::
  "org_id \<Rightarrow> string \<Rightarrow> (string \<times> string) list option \<Rightarrow> string option \<Rightarrow> string option
     \<Rightarrow> ClientTimeout option \<Rightarrow> AIOHTTPClient" where
  "AIOHTTPClient_init org token hdrs api_host api_ver timeout_kw =
     BaseClient.extend (BaseClient_init org token hdrs api_host api_ver)
       (AIOHTTPClient.fields (case timeout_kw of None \<Rightarrow> ClientTimeout (Some 0) | Some t \<Rightarrow> t))"

subsection \<open>Sessions\<close>

text \<open>
  A \<^verbatim>\<open>ClientSession\<close> is an object with identity: two calls may return the same one, and
  whoever holds it can close it. The sessions live in a heap, a list indexed by reference;
  constructing a session appends to it. Of a session the model keeps what the constructor
  is given and the \<open>closed\<close> flag. The TLS context and the connector are built from the
  installed certificate bundle and take no part in what follows. The time spent in
  \<^verbatim>\<open>asyncio.sleep\<close> is counted in milliseconds by \<open>clock\<close>.

  The constructor \<^verbatim>\<open>ClientSession(base_url=...)\<close> parses the base URL and raises
  \<^verbatim>\<open>ValueError\<close> for one it refuses, such as a host name without a scheme, which is
  not an absolute URL. The parser is \<^verbatim>\<open>aiohttp\<close>'s: \<open>refuse\<close> gives the message of the
  error for a base URL, and \<open>None\<close> for a base URL the constructor accepts.
\<close>

record ClientSession =
  s_base_url :: string
  s_headers :: "(string \<times> string) list"
  s_timeout :: ClientTimeout
  closed :: bool

record world =
  self :: AIOHTTPClient
  heap :: "ClientSession list"
  clock :: nat

definition deref :: "'a list \<Rightarrow> nat \<Rightarrow> 'a option" where
  "deref h r = (if r < length h then Some (h ! r) else None)"

text \<open>\<^verbatim>\<open>self._session\<close> as an object: \<^verbatim>\<open>None\<close> or the session it refers to.\<close>

definition the_session :: "world \<Rightarrow> ClientSession option" where
  "the_session w = (case session (self w) of None \<Rightarrow> None | Some r \<Rightarrow> deref (heap w) r)"

text \<open>
  The second half of \<^verbatim>\<open>get_session\<close>: a session is constructed from the client's base
  URL, headers and timeout, stored in \<^verbatim>\<open>self._session\<close> and returned. A new object gets
  the next free reference. When the constructor raises, nothing is stored and the error
  reaches the caller of \<^verbatim>\<open>get_session\<close>.
\<close>

definition construct_session :: "(string \<Rightarrow> string option) \<Rightarrow> world \<Rightarrow> (error + nat) \<times> world" where
  "construct_session refuse w =
     (case refuse (base_url (self w)) of
        Some msg \<Rightarrow> (Inl (ValueError msg), w)
      | None \<Rightarrow>
          (let r = length (heap w);
               s = \<lparr>s_base_url = base_url (self w), s_headers = headers (self w),
                    s_timeout = timeout (self w), closed = False\<rparr>
           in (Inr r, w\<lparr>self := (self w)\<lparr>session := Some r\<rparr>, heap := heap w @ [s]\<rparr>)))"

definition get_session :: "(string \<Rightarrow> string option) \<Rightarrow> world \<Rightarrow> (error + nat) \<times> world" where
  "get_session refuse w =
     (case (session (self w), the_session w) of
        (Some r, Some s) \<Rightarrow> if \<not> closed s then (Inr r, w) else construct_session refuse w
      | _ \<Rightarrow> construct_session refuse w)"

text \<open>
  \<^verbatim>\<open>close\<close> is a coroutine; its result is \<open>Inr ()\<close> when it completes and \<open>Inl e\<close> when
  it raises \<open>e\<close>, next to the world it leaves.
\<close>

definition close :: "world \<Rightarrow> (error + unit) \<times> world" where
  "close w =
     (case (session (self w), the_session w) of
        (Some r, Some s) \<Rightarrow>
          if closed s then (Inr (), w)
          else (Inr (), w\<lparr>heap := (heap w)[r := s\<lparr>closed := True\<rparr>], clock := clock w + 250\<rparr>)
      | _ \<Rightarrow> (Inr (), w))"

subsection \<open>The request executor and the facade\<close>

text \<open>
  \<^verbatim>\<open>_process_exception\<close> builds the exception; it does not raise it.
\<close>

definition process_exception :: "int \<Rightarrow> pyval \<Rightarrow> error" where
  "process_exception status data =
     (case data of
        PDict d \<Rightarrow> YaTrackerError (py_or (dict_get d ''message'') (dict_get d ''detail''))
      | _ \<Rightarrow> YaTrackerError data)"

text \<open>
  The keyword arguments that \<^verbatim>\<open>request\<close> hands to \<^verbatim>\<open>_make_request\<close>, and through it
  to \<^verbatim>\<open>session.request\<close>. The transport is \<^verbatim>\<open>aiohttp\<close>: given the session and the call
  it answers with the status and the text of the response (\<open>Inr\<close>), or raises a
  \<^verbatim>\<open>ClientError\<close> with a message (\<open>Inl\<close>).
\<close>

record BytesPayload =
  payload_value :: string
  content_type :: string

record kwargs =
  params :: pyval
  data :: BytesPayload

type_synonym transport = "ClientSession \<Rightarrow> string \<Rightarrow> string \<Rightarrow> kwargs \<Rightarrow> string + int \<times> string"

text \<open>A server that answers every call with the same status and text.\<close>

definition answers :: "int \<Rightarrow> string \<Rightarrow> transport" where
  "answers status text = (\<lambda>s method url kw. Inr (status, text))"

definition make_request ::
  "(string \<Rightarrow> string option) \<Rightarrow> transport \<Rightarrow> string \<Rightarrow> string \<Rightarrow> kwargs \<Rightarrow> world
     \<Rightarrow> (error + int \<times> string) \<times> world" where
  "make_request refuse transport method url kw w =
     (case get_session refuse w of
        (Inl e, w') \<Rightarrow> (Inl e, w')
      | (Inr r, w') \<Rightarrow>
          (case transport (heap w' ! r) method url kw of
             Inl msg \<Rightarrow> (Inl (ClientError msg), w')
           | Inr (status, text) \<Rightarrow>
               if status \<noteq> 200 then (Inl (process_exception status (PStr text)), w')
               else (Inr (status, text), w')))"

text \<open>
  \<^verbatim>\<open>BaseClient.request\<close>, over the abstract method \<^verbatim>\<open>_make_request\<close> (the argument
  \<open>mk\<close>) and the encoder of \<^verbatim>\<open>msgspec\<close>, which gives the bytes or raises an
  \<^verbatim>\<open>EncodeError\<close> with a message. The body that \<open>request\<close> returns is the text that
  \<^verbatim>\<open>_make_request\<close> returned.
\<close>

definition request ::
  "(pyval \<Rightarrow> string + string)
     \<Rightarrow> (string \<Rightarrow> string \<Rightarrow> kwargs \<Rightarrow> world \<Rightarrow> (error + int \<times> string) \<times> world)
     \<Rightarrow> string \<Rightarrow> string \<Rightarrow> pyval \<Rightarrow> pyval \<Rightarrow> world \<Rightarrow> (error + pyval) \<times> world" where
  "request encode mk method uri ps payload w =
     (case encode payload of
        Inl msg \<Rightarrow> (Inl (EncodeError msg), w)
      | Inr bytes \<Rightarrow>
          (let bytes_payload = \<lparr>payload_value = bytes, content_type = ''application/json''\<rparr>;
               (res, w') = mk method (''/'' @ api_version (self w) @ uri)
                             \<lparr>params = ps, data = bytes_payload\<rparr> w
           in case res of
                Inl e \<Rightarrow> (Inl e, w')
              | Inr (status, body) \<Rightarrow>
                  (case check_status status (PStr body) of
                     Inl e \<Rightarrow> (Inl e, w')
                   | Inr _ \<Rightarrow> (Inr (PStr body), w'))))"

text \<open>\<^verbatim>\<open>AIOHTTPClient.request\<close>: the inherited facade over the concrete executor.\<close>

definition AIOHTTPClient_request ::
  "(string \<Rightarrow> string option) \<Rightarrow> (pyval \<Rightarrow> string + string) \<Rightarrow> transport
     \<Rightarrow> string \<Rightarrow> string \<Rightarrow> pyval \<Rightarrow> pyval \<Rightarrow> world \<Rightarrow> (error + pyval) \<times> world" where
  "AIOHTTPClient_request refuse encode transport =
     request encode (make_request refuse transport)"

subsection \<open>File uploads\<close>

text \<open>
  The argument of \<^verbatim>\<open>_prepare_file\<close> by its run-time type: a \<^verbatim>\<open>str\<close>, an
  \<^verbatim>\<open>io.IOBase\<close> stream, a \<^verbatim>\<open>pathlib.Path\<close>, or a value of any other type, of which
  only \<^verbatim>\<open>type(file).__name__\<close> is used. Opening a path is the operating system's:
  \<open>open_rb\<close> gives the stream, or the message of the \<^verbatim>\<open>OSError\<close> that
  \<^verbatim>\<open>Path.open("rb")\<close> raises (no such file, a directory, no permission).
\<close>

datatype path = Path string

datatype 's file_arg = FStr string | FIOBase 's | FPath path | FOther string

definition path_open :: "(path \<Rightarrow> string + 's) \<Rightarrow> path \<Rightarrow> error + 's" where
  "path_open open_rb p = (case open_rb p of Inl msg \<Rightarrow> Inl (OSError msg) | Inr f \<Rightarrow> Inr f)"

fun prepare_file :: "(path \<Rightarrow> string + 's) \<Rightarrow> 's file_arg \<Rightarrow> error + 's" where
  "prepare_file open_rb (FStr s) = path_open open_rb (Path s)"
| "prepare_file open_rb (FIOBase f) = Inr f"
| "prepare_file open_rb (FPath p) = path_open open_rb p"
| "prepare_file open_rb (FOther tn) = Inl (TypeError (''Not supported file type: `'' @ tn @ ''`''))"

text \<open>\<^verbatim>\<open>aiohttp.FormData\<close>: the fields in the order they were added.\<close>

type_synonym 's FormData = "(string \<times> 's) list"

definition add_field :: "string \<Rightarrow> 's \<Rightarrow> 's FormData \<Rightarrow> 's FormData" where
  "add_field name v form = form @ [(name, v)]"

definition prepare_form :: "(path \<Rightarrow> string + 's) \<Rightarrow> 's file_arg \<Rightarrow> error + 's FormData" where
  "prepare_form open_rb file =
     (case prepare_file open_rb file of
        Inl e \<Rightarrow> Inl e
      | Inr f \<Rightarrow> Inr (add_field ''file'' f []))"

subsection \<open>Reachable worlds and sample inputs\<close>

text \<open>
  The session of a client, if it has one, is an object of the heap that was constructed
  from the client's own base URL, headers and timeout. This holds for a new client and
  every operation keeps it, whether it succeeds or raises.
\<close>

definition session_ok :: "world \<Rightarrow> bool" where
  "session_ok w =
     (case session (self w) of
        None \<Rightarrow> True
      | Some r \<Rightarrow>
          (case deref (heap w) r of
             None \<Rightarrow> False
           | Some s \<Rightarrow> s_base_url s = base_url (self w) \<and> s_headers s = headers (self w)
                        \<and> s_timeout s = timeout (self w)))"

text \<open>A world around a client, with no session constructed yet.\<close>

definition new_world :: "AIOHTTPClient \<Rightarrow> world" where
  "new_world c = \<lparr>self = c, heap = [], clock = 0\<rparr>"

text \<open>
  Sample collaborators for the concrete runs: a client for organisation 42, a second one
  whose \<^verbatim>\<open>api_host\<close> is a host name without scheme, a session constructor that accepts
  the base URLs with an \<^verbatim>\<open>http\<close> or \<^verbatim>\<open>https\<close> scheme, an encoder that knows
  \<^verbatim>\<open>None\<close> (which \<^verbatim>\<open>msgspec\<close> encodes as \<^verbatim>\<open>null\<close>), and a file system that holds
  the single file \<^verbatim>\<open>report.pdf\<close>, opened as stream 3.
\<close>

definition sample_client :: AIOHTTPClient where
  "sample_client = AIOHTTPClient_init (OrgInt 42) ''secret'' None None None None"


definition sample_refuse :: "string \<Rightarrow> string option" where
  "sample_refuse url =
     (if take 7 url = ''http://'' \<or> take 8 url = ''https://'' then None
      else Some ''URL should be absolute'')"

definition sample_encoder :: "pyval \<Rightarrow> string + string" where
  "sample_encoder v = (if v = PNone then Inr ''null'' else Inl ''unsupported'')"

fun sample_open :: "path \<Rightarrow> string + nat" where
  "sample_open (Path p) =
     (if p = ''report.pdf'' then Inr 3 else Inl (''No such file or directory: '' @ p))"

section \<open>Properties\<close>

subsection \<open>Facts about the operations\<close>

lemma AIOHTTPClient_init_fields:
  "api_version (AIOHTTPClient_init org token hdrs host ver t) =
     api_version (BaseClient_init org token hdrs host ver)"
  "base_url (AIOHTTPClient_init org token hdrs host ver t) =
     base_url (BaseClient_init org token hdrs host ver)"
  "headers (AIOHTTPClient_init org token hdrs host ver t) =
     headers (BaseClient_init org token hdrs host ver)"
  "session (AIOHTTPClient_init org token hdrs host ver t) = None"
  "timeout (AIOHTTPClient_init org token hdrs host ver t) =
     (case t of None \<Rightarrow> ClientTimeout (Some 0) | Some x \<Rightarrow> x)"
  by (simp_all add: AIOHTTPClient_init_def BaseClient.extend_def AIOHTTPClient.fields_def
      BaseClient_init_def Let_def)

lemma session_sample_client: "session sample_client = None"
  by (simp add: sample_client_def AIOHTTPClient_init_fields)


lemma sample_refuse_sample_client: "sample_refuse (base_url sample_client) = None"
  by (simp add: sample_client_def AIOHTTPClient_init_fields BaseClient_init_def Let_def
      str_or_def DEFAULT_API_HOST_def sample_refuse_def)


lemma the_session_SomeD:
  "the_session w = Some s \<Longrightarrow>
   \<exists>r. session (self w) = Some r \<and> r < length (heap w) \<and> heap w ! r = s"
  by (auto simp: the_session_def deref_def split: option.splits if_splits)

lemma construct_session_accepted:
  "chk (base_url (self w)) = None \<Longrightarrow>
   construct_session chk w =
     (Inr (length (heap w)),
      w\<lparr>self := (self w)\<lparr>session := Some (length (heap w))\<rparr>,
        heap := heap w @
          [\<lparr>s_base_url = base_url (self w), s_headers = headers (self w),
            s_timeout = timeout (self w), closed = False\<rparr>]\<rparr>)"
  by (simp add: construct_session_def Let_def)

lemma construct_session_refused:
  "chk (base_url (self w)) = Some msg \<Longrightarrow> construct_session chk w = (Inl (ValueError msg), w)"
  by (simp add: construct_session_def)

lemma get_session_fst_valid: "get_session chk w = (Inr r, w') \<Longrightarrow> r < length (heap w')"
  by (auto simp: get_session_def construct_session_def the_session_def deref_def Let_def
      split: option.splits if_splits)

lemma get_session_raises: "fst (get_session chk w) = Inl e \<Longrightarrow> \<exists>msg. e = ValueError msg"
  by (auto simp: get_session_def construct_session_def Let_def split: option.splits if_splits)

lemma get_session_open:
  "session (self w) = Some r \<Longrightarrow> the_session w = Some s \<Longrightarrow> \<not> closed s \<Longrightarrow>
   get_session chk w = (Inr r, w)"
  by (simp add: get_session_def)

lemma get_session_not_open:
  "the_session w = None \<or> (\<exists>s. the_session w = Some s \<and> closed s) \<Longrightarrow>
   get_session chk w = construct_session chk w"
  by (auto simp: get_session_def split: option.splits)

lemma the_session_construct:
  "chk (base_url (self w)) = None \<Longrightarrow>
   the_session (snd (construct_session chk w)) =
     Some \<lparr>s_base_url = base_url (self w), s_headers = headers (self w),
           s_timeout = timeout (self w), closed = False\<rparr>"
  by (simp add: construct_session_accepted the_session_def deref_def)

lemma session_construct:
  "chk (base_url (self w)) = None \<Longrightarrow>
   session (self (snd (construct_session chk w))) = Some (length (heap w))"
  "chk (base_url (self w)) = None \<Longrightarrow> fst (construct_session chk w) = Inr (length (heap w))"
  by (simp_all add: construct_session_accepted)

lemma get_session_new_world:
  "session c = None \<Longrightarrow> chk (base_url c) = None \<Longrightarrow>
   get_session chk (new_world c) =
     (Inr 0, \<lparr>self = c\<lparr>session := Some 0\<rparr>,
          heap = [\<lparr>s_base_url = base_url c, s_headers = headers c, s_timeout = timeout c,
                   closed = False\<rparr>],
          clock = 0\<rparr>)"
  by (simp add: get_session_def construct_session_def new_world_def the_session_def Let_def)

lemma get_session_sample:
  "get_session sample_refuse (new_world sample_client) =
     (Inr 0, \<lparr>self = sample_client\<lparr>session := Some 0\<rparr>,
          heap = [\<lparr>s_base_url = base_url sample_client, s_headers = headers sample_client,
                   s_timeout = timeout sample_client, closed = False\<rparr>],
          clock = 0\<rparr>)"
  by (simp add: get_session_new_world session_sample_client sample_refuse_sample_client)

lemma close_cases:
  "close w =
     (case the_session w of
        None \<Rightarrow> (Inr (), w)
      | Some s \<Rightarrow>
          if closed s then (Inr (), w)
          else (Inr (), w\<lparr>heap := (heap w)[the (session (self w)) := s\<lparr>closed := True\<rparr>],
                           clock := clock w + 250\<rparr>))"
  by (auto simp: close_def the_session_def split: option.splits)

lemma the_session_close:
  "the_session (snd (close w)) = map_option (\<lambda>s. s\<lparr>closed := True\<rparr>) (the_session w)"
  by (auto simp: close_def the_session_def deref_def split: option.splits)

lemma close_self: "self (snd (close w)) = self w"
  by (auto simp: close_def split: option.splits)


lemma make_request_cases:
  "fst (make_request chk tr meth url kw w) =
     (case fst (get_session chk w) of
        Inl e \<Rightarrow> Inl e
      | Inr r \<Rightarrow>
          (case tr (heap (snd (get_session chk w)) ! r) meth url kw of
             Inl msg \<Rightarrow> Inl (ClientError msg)
           | Inr (status, body) \<Rightarrow>
               if status = 200 then Inr (200, body) else Inl (YaTrackerError (PStr body))))"
  by (simp add: make_request_def process_exception_def split: prod.splits sum.splits)

lemma make_request_world: "snd (make_request chk tr meth url kw w) = snd (get_session chk w)"
  by (simp add: make_request_def split: prod.splits sum.splits)

lemma AIOHTTPClient_request_cases:
  "fst (AIOHTTPClient_request chk enc tr meth uri ps payload w) =
     (case enc payload of
        Inl msg \<Rightarrow> Inl (EncodeError msg)
      | Inr bytes \<Rightarrow>
         (case fst (make_request chk tr meth (''/'' @ api_version (self w) @ uri)
                 \<lparr>params = ps,
                    data = \<lparr>payload_value = bytes, content_type = ''application/json''\<rparr>\<rparr> w) of
            Inl e \<Rightarrow> Inl e
          | Inr (status, body) \<Rightarrow>
              (case check_status status (PStr body) of
                 Inl e \<Rightarrow> Inl e
               | Inr _ \<Rightarrow> Inr (PStr body))))"
  by (simp add: AIOHTTPClient_request_def request_def Let_def split: prod.splits sum.splits)

lemma AIOHTTPClient_request_world:
  "snd (AIOHTTPClient_request chk enc tr meth uri ps payload w) =
     (case enc payload of
        Inl msg \<Rightarrow> w
      | Inr bytes \<Rightarrow>
          snd (make_request chk tr meth (''/'' @ api_version (self w) @ uri)
                 \<lparr>params = ps,
                    data = \<lparr>payload_value = bytes, content_type = ''application/json''\<rparr>\<rparr> w))"
  by (simp add: AIOHTTPClient_request_def request_def Let_def split: prod.splits sum.splits)

lemma check_status_200: "check_status 200 body = Inr ()"
  by (simp add: check_status_def MULTIPLE_CHOICES_def)

lemma map_of_setdefault:
  "map_of (setdefault k v d) k' =
     (if k' = k \<and> map_of d k = None then Some v else map_of d k')"
  by (auto simp: setdefault_def map_add_def split: option.splits)


lemma session_ok_construct: "session_ok w \<Longrightarrow> session_ok (snd (construct_session chk w))"
  by (cases "chk (base_url (self w))")
    (simp_all add: construct_session_def session_ok_def deref_def Let_def)

lemma session_ok_get_session: "session_ok w \<Longrightarrow> session_ok (snd (get_session chk w))"
  by (auto simp: get_session_def session_ok_construct split: option.splits)



lemma session_ok_make_request:
  "session_ok w \<Longrightarrow> session_ok (snd (make_request chk tr meth url kw w))"
  by (simp add: make_request_world session_ok_get_session)

lemma session_ok_request:
  "session_ok w \<Longrightarrow> session_ok (snd (AIOHTTPClient_request chk enc tr meth uri ps payload w))"
  by (simp add: AIOHTTPClient_request_world session_ok_make_request split: sum.splits)

subsection \<open>The status translator\<close>

text \<open>
  C1. For every integer status and every body, \<open>check_status\<close> gives one verdict, in
  priority order: a status below 300 returns without error; 401, 403, 404 and 409 raise
  \<open>NotAuthorizedError\<close>, \<open>SufficientRightsError\<close>, \<open>ObjectNotFoundError\<close> and
  \<open>AlreadyExistsError\<close>, and no other status raises any of these four; every other status
  from 300 on raises \<open>YaTrackerError\<close> carrying the given body unchanged.
\<close>

theorem check_status_classifies:
  "(status < 300 \<longrightarrow> check_status status text = Inr ()) \<and>
   (check_status status text = Inl NotAuthorizedError \<longleftrightarrow> status = 401) \<and>
   (check_status status text = Inl SufficientRightsError \<longleftrightarrow> status = 403) \<and>
   (check_status status text = Inl ObjectNotFoundError \<longleftrightarrow> status = 404) \<and>
   (check_status status text = Inl AlreadyExistsError \<longleftrightarrow> status = 409) \<and>
   (300 \<le> status \<and> status \<notin> {401, 403, 404, 409} \<longrightarrow>
      check_status status text = Inl (YaTrackerError text))"
  by (simp add: check_status_def MULTIPLE_CHOICES_def UNAUTHORIZED_def FORBIDDEN_def
      NOT_FOUND_def CONFLICT_def)

theorem check_status_classifies_witness:
  "check_status 200 (PStr ''ok'') = Inr () \<and>
   check_status 299 (PStr ''ok'') = Inr () \<and>
   check_status (- 1) (PStr ''ok'') = Inr () \<and>
   check_status 401 (PStr ''a'') = Inl NotAuthorizedError \<and>
   check_status 403 (PStr ''b'') = Inl SufficientRightsError \<and>
   check_status 404 (PStr ''c'') = Inl ObjectNotFoundError \<and>
   check_status 409 (PStr ''d'') = Inl AlreadyExistsError \<and>
   check_status 300 (PStr ''moved'') = Inl (YaTrackerError (PStr ''moved'')) \<and>
   check_status 500 (PStr ''internal error'') = Inl (YaTrackerError (PStr ''internal error''))"
  using check_status_classifies [of 200 "PStr ''ok''"]
    check_status_classifies [of 299 "PStr ''ok''"]
    check_status_classifies [of "- 1" "PStr ''ok''"]
    check_status_classifies [of 401 "PStr ''a''"]
    check_status_classifies [of 403 "PStr ''b''"]
    check_status_classifies [of 404 "PStr ''c''"]
    check_status_classifies [of 409 "PStr ''d''"]
    check_status_classifies [of 300 "PStr ''moved''"]
    check_status_classifies [of 500 "PStr ''internal error''"]
  by simp

subsection \<open>The facade and the executor\<close>

text \<open>
  C2, as the code has it. For every call of the facade that the server answers with status
  200 (the payload was encoded, the client had or obtained its session, the server is one
  that \<open>answers\<close>), the facade returns the text of the response body unchanged, as a
  string: nothing decodes it from JSON. A \<^verbatim>\<open>GET\<close> of \<^verbatim>\<open>/issues/TEST-1\<close> answered 200
  with the body \<^verbatim>\<open>{"key":"TEST-1"}\<close> returns that text.
\<close>

theorem request_200_returns_text:
  "enc payload = Inr bytes \<Longrightarrow> fst (get_session chk w) = Inr r \<Longrightarrow>
   fst (AIOHTTPClient_request chk enc (answers 200 body) meth uri ps payload w) =
     Inr (PStr body)"
  by (simp add: AIOHTTPClient_request_cases make_request_cases answers_def check_status_200)

theorem request_200_returns_text_witness:
  \<open>sample_encoder PNone = Inr ''null'' \<and>
   fst (get_session sample_refuse (new_world sample_client)) = Inr 0 \<and>
   fst (AIOHTTPClient_request sample_refuse sample_encoder (answers 200 ''{"key":"TEST-1"}'')
          ''GET'' ''/issues/TEST-1'' PNone PNone (new_world sample_client)) =
     Inr (PStr ''{"key":"TEST-1"}'')\<close>
proof -
  have h: "sample_encoder PNone = Inr ''null''"
    by (simp add: sample_encoder_def)
  have g: "fst (get_session sample_refuse (new_world sample_client)) = Inr 0"
    by (simp add: get_session_sample)
  from request_200_returns_text [where enc = sample_encoder and payload = PNone, OF h g]
  show ?thesis
    using h g by simp
qed

text \<open>
  The claim as it was stated asks for the mapping with the key \<^verbatim>\<open>key\<close>; the facade does
  not return it.
\<close>

theorem request_200_not_decoded:
  \<open>fst (AIOHTTPClient_request sample_refuse sample_encoder (answers 200 ''{"key":"TEST-1"}'')
          ''GET'' ''/issues/TEST-1'' PNone PNone (new_world sample_client)) \<noteq>
     Inr (PDict [(''key'', PStr ''TEST-1'')])\<close>
  by (simp add: AIOHTTPClient_request_cases make_request_cases answers_def check_status_200
      sample_encoder_def get_session_sample)

text \<open>
  C3. A call of the facade answered 404 with the body \<^verbatim>\<open>{"message":"not found"}\<close> ought
  to raise \<open>ObjectNotFoundError\<close>, which is what \<open>check_status\<close> makes of that status and
  body. What the call raises is \<open>YaTrackerError\<close> with the text of the body: the executor
  raises on the status before \<open>check_status\<close> is reached.
\<close>

theorem request_404_raises_generic:
  \<open>fst (AIOHTTPClient_request sample_refuse sample_encoder
          (answers 404 ''{"message":"not found"}'') ''GET''
          ''/issues/TEST-1'' PNone PNone (new_world sample_client)) =
     Inl (YaTrackerError (PStr ''{"message":"not found"}'')) \<and>
   check_status 404 (PStr ''{"message":"not found"}'') = Inl ObjectNotFoundError\<close>
  by (simp add: AIOHTTPClient_request_cases make_request_cases answers_def
      sample_encoder_def check_status_def MULTIPLE_CHOICES_def UNAUTHORIZED_def FORBIDDEN_def
      NOT_FOUND_def get_session_sample)

text \<open>
  C4. The executor answered 404 with the body \<^verbatim>\<open>{"message":"not found"}\<close> raises
  \<open>YaTrackerError\<close> carrying the whole text of the body, not the value under
  \<^verbatim>\<open>message\<close>: it hands \<open>process_exception\<close> the text, and only a mapping is searched
  for \<^verbatim>\<open>message\<close> and \<^verbatim>\<open>detail\<close>.
\<close>

theorem make_request_carries_raw_text:
  \<open>fst (make_request sample_refuse (answers 404 ''{"message":"not found"}'') ''GET''
          ''/v2/issues/TEST-1''
          \<lparr>params = PNone, data = \<lparr>payload_value = ''null'', content_type = ''application/json''\<rparr>\<rparr>
          (new_world sample_client)) =
     Inl (YaTrackerError (PStr ''{"message":"not found"}'')) \<and>
   process_exception 404 (PDict [(''message'', PStr ''not found'')]) =
     YaTrackerError (PStr ''not found'')\<close>
  by (simp add: make_request_cases answers_def process_exception_def py_or_def dict_get_def
      get_session_sample)

text \<open>
  C5. In the concrete client, whenever \<open>make_request\<close> returns normally the status it
  returns is 200; so no call of the facade ever raises one of the four typed errors of
  \<open>check_status\<close>, and every response whose status is not 200 (201 and 204 as much as
  the 3xx, 4xx and 5xx) reaches the caller as the \<open>YaTrackerError\<close> that
  \<open>process_exception\<close> builds from the text of the body. There is a response when the
  payload was encoded and the client had or obtained its session.
\<close>

theorem make_request_only_200:
  "(\<forall>s t. fst (make_request chk tr meth url kw w) = Inr (s, t) \<longrightarrow> s = 200) \<and>
   fst (AIOHTTPClient_request chk enc tr meth uri ps payload w) \<notin>
     {Inl NotAuthorizedError, Inl SufficientRightsError, Inl ObjectNotFoundError,
      Inl AlreadyExistsError} \<and>
   (\<forall>bytes r. enc payload = Inr bytes \<and> fst (get_session chk w) = Inr r \<and> status \<noteq> 200 \<longrightarrow>
      fst (AIOHTTPClient_request chk enc (answers status body) meth uri ps payload w) =
        Inl (process_exception status (PStr body)) \<and>
      process_exception status (PStr body) = YaTrackerError (PStr body))"
proof (intro conjI allI impI)
  fix s t
  assume "fst (make_request chk tr meth url kw w) = Inr (s, t)"
  then show "s = 200"
    by (auto simp: make_request_cases split: sum.splits prod.splits if_splits)
next
  show "fst (AIOHTTPClient_request chk enc tr meth uri ps payload w) \<notin>
     {Inl NotAuthorizedError, Inl SufficientRightsError, Inl ObjectNotFoundError,
      Inl AlreadyExistsError}"
    by (auto simp: AIOHTTPClient_request_cases make_request_cases check_status_200
        split: sum.splits prod.splits if_splits dest: get_session_raises)
next
  fix bytes r
  assume "enc payload = Inr bytes \<and> fst (get_session chk w) = Inr r \<and> status \<noteq> 200"
  then show "fst (AIOHTTPClient_request chk enc (answers status body) meth uri ps payload w) =
        Inl (process_exception status (PStr body))"
    by (simp add: AIOHTTPClient_request_cases make_request_cases answers_def
        process_exception_def)
next
  show "process_exception status (PStr body) = YaTrackerError (PStr body)"
    by (simp add: process_exception_def)
qed

theorem make_request_only_200_witness:
  "fst (get_session sample_refuse (new_world sample_client)) = Inr 0 \<and>
   fst (AIOHTTPClient_request sample_refuse sample_encoder (answers 201 ''created'') ''POST''
          ''/issues'' PNone PNone (new_world sample_client)) =
     Inl (YaTrackerError (PStr ''created'')) \<and>
   fst (make_request sample_refuse (answers 200 ''[]'') ''GET'' ''/v2/issues''
          \<lparr>params = PNone, data = \<lparr>payload_value = ''null'', content_type = ''application/json''\<rparr>\<rparr>
          (new_world sample_client)) = Inr (200, ''[]'')"
proof -
  have g: "fst (get_session sample_refuse (new_world sample_client)) = Inr 0"
    by (simp add: get_session_sample)
  have h: "sample_encoder PNone = Inr ''null'' \<and>
      fst (get_session sample_refuse (new_world sample_client)) = Inr 0 \<and> (201::int) \<noteq> 200"
    by (simp add: sample_encoder_def g)
  have m: "fst (make_request sample_refuse (answers 200 ''[]'') ''GET'' ''/v2/issues''
          \<lparr>params = PNone, data = \<lparr>payload_value = ''null'', content_type = ''application/json''\<rparr>\<rparr>
          (new_world sample_client)) = Inr (200, ''[]'')"
    by (simp add: make_request_cases answers_def g)
  have t: "\<forall>bytes r. sample_encoder PNone = Inr bytes \<and>
      fst (get_session sample_refuse (new_world sample_client)) = Inr r \<and> (201::int) \<noteq> 200 \<longrightarrow>
      fst (AIOHTTPClient_request sample_refuse sample_encoder (answers 201 ''created'') ''POST''
             ''/issues'' PNone PNone (new_world sample_client)) =
        Inl (process_exception 201 (PStr ''created'')) \<and>
      process_exception 201 (PStr ''created'') = YaTrackerError (PStr ''created'')"
    using make_request_only_200 [where chk = sample_refuse and enc = sample_encoder
        and payload = PNone and status = 201 and body = "''created''" and meth = "''POST''"
        and uri = "''/issues''" and ps = PNone and w = "new_world sample_client"]
    by blast
  from t h have "fst (AIOHTTPClient_request sample_refuse sample_encoder
      (answers 201 ''created'') ''POST'' ''/issues'' PNone PNone (new_world sample_client)) =
        Inl (YaTrackerError (PStr ''created''))"
    by metis
  with m g show ?thesis by (intro conjI)
qed

subsection \<open>The session manager\<close>

text \<open>
  C6. Two calls of \<open>get_session\<close> in a row, with no \<open>close\<close> between them, return the
  same session: the second call returns what the first returned and leaves the world,
  and with it the heap, as it was. In general, if the client has an open session,
  \<open>get_session\<close> returns it and constructs nothing.
\<close>

theorem get_session_reuses_open_session:
  "(\<forall>r s. session (self w) = Some r \<and> the_session w = Some s \<and> \<not> closed s \<longrightarrow>
      get_session chk w = (Inr r, w)) \<and>
   get_session chk (snd (get_session chk w)) =
     (fst (get_session chk w), snd (get_session chk w))"
proof (intro conjI allI impI)
  fix r s
  assume "session (self w) = Some r \<and> the_session w = Some s \<and> \<not> closed s"
  then show "get_session chk w = (Inr r, w)"
    by (simp add: get_session_open)
next
  show "get_session chk (snd (get_session chk w)) =
     (fst (get_session chk w), snd (get_session chk w))"
  proof (cases "the_session w = None \<or> (\<exists>s. the_session w = Some s \<and> closed s)")
    case True
    then have g: "get_session chk w = construct_session chk w"
      by (rule get_session_not_open)
    show ?thesis
    proof (cases "chk (base_url (self w))")
      case None
      have "get_session chk (snd (construct_session chk w)) =
              (Inr (length (heap w)), snd (construct_session chk w))"
        by (rule get_session_open
              [OF session_construct(1) [where chk = chk and w = w, OF None]
                the_session_construct [where chk = chk and w = w, OF None]]) simp
      then show ?thesis
        by (simp add: g session_construct(2) [where chk = chk and w = w, OF None])
    next
      case (Some msg)
      then have "construct_session chk w = (Inl (ValueError msg), w)"
        by (rule construct_session_refused [where chk = chk and w = w])
      then show ?thesis
        by (simp add: g)
    qed
  next
    case False
    then obtain s where s: "the_session w = Some s" "\<not> closed s"
      by auto
    then obtain r where r: "session (self w) = Some r"
      by (auto dest: the_session_SomeD)
    from r s have "get_session chk w = (Inr r, w)"
      by (rule get_session_open)
    then show ?thesis by simp
  qed
qed

theorem get_session_reuses_open_session_witness:
  "session (self (snd (get_session sample_refuse (new_world sample_client)))) = Some 0 \<and>
   map_option closed (the_session (snd (get_session sample_refuse (new_world sample_client))))
     = Some False \<and>
   get_session sample_refuse (snd (get_session sample_refuse (new_world sample_client))) =
     (Inr 0, snd (get_session sample_refuse (new_world sample_client)))"
proof -
  let ?w = "snd (get_session sample_refuse (new_world sample_client))"
  let ?s = "\<lparr>s_base_url = base_url sample_client, s_headers = headers sample_client,
             s_timeout = timeout sample_client, closed = False\<rparr>"
  have a: "session (self ?w) = Some 0"
    by (simp add: get_session_sample)
  have b: "the_session ?w = Some ?s"
    by (simp add: get_session_sample the_session_def deref_def)
  have c: "\<not> closed ?s"
    by simp
  from get_session_reuses_open_session [of ?w sample_refuse] a b c
  have "get_session sample_refuse ?w = (Inr 0, ?w)"
    by blast
  with a b show ?thesis
    by simp
qed




text \<open>
  C8. \<open>close\<close> never fails and is idempotent. With no session ever created it does
  nothing; with the session closed already it does nothing; otherwise it closes the
  session and then sleeps for 250 milliseconds. A second \<open>close\<close> right after the first,
  and a \<open>close\<close> on a client that never made a request, complete without error and change
  nothing.
\<close>

theorem close_idempotent:
  "fst (close w) = Inr () \<and>
   close (snd (close w)) = (Inr (), snd (close w)) \<and>
   (session (self w) = None \<longrightarrow> close w = (Inr (), w)) \<and>
   (\<forall>s. the_session w = Some s \<and> closed s \<longrightarrow> close w = (Inr (), w)) \<and>
   (\<forall>s. the_session w = Some s \<and> \<not> closed s \<longrightarrow>
      the_session (snd (close w)) = Some (s\<lparr>closed := True\<rparr>) \<and>
      clock (snd (close w)) = clock w + 250 \<and>
      self (snd (close w)) = self w) \<and>
   close (new_world (AIOHTTPClient_init org token hdrs host ver t)) =
     (Inr (), new_world (AIOHTTPClient_init org token hdrs host ver t))"
proof (intro conjI allI impI)
  show "fst (close w) = Inr ()"
    by (simp add: close_cases split: option.splits)
next
  have "\<exists>s. the_session (snd (close w)) = None \<or> the_session (snd (close w)) = Some s \<and> closed s"
    by (cases "the_session w") (simp_all add: the_session_close)
  then show "close (snd (close w)) = (Inr (), snd (close w))"
    by (auto simp: close_cases [of "snd (close w)"])
next
  assume "session (self w) = None"
  then show "close w = (Inr (), w)"
    by (simp add: close_def)
next
  fix s assume "the_session w = Some s \<and> closed s"
  then show "close w = (Inr (), w)"
    by (simp add: close_cases)
next
  fix s assume a: "the_session w = Some s \<and> \<not> closed s"
  then show "the_session (snd (close w)) = Some (s\<lparr>closed := True\<rparr>)"
    by (simp add: the_session_close)
  from a show "clock (snd (close w)) = clock w + 250"
    by (simp add: close_cases)
  show "self (snd (close w)) = self w"
    by (rule close_self)
next
  show "close (new_world (AIOHTTPClient_init org token hdrs host ver t)) =
     (Inr (), new_world (AIOHTTPClient_init org token hdrs host ver t))"
    by (simp add: close_def new_world_def AIOHTTPClient_init_fields)
qed

theorem close_idempotent_witness:
  "map_option closed (the_session (snd (get_session sample_refuse (new_world sample_client))))
     = Some False \<and>
   close (new_world sample_client) = (Inr (), new_world sample_client) \<and>
   fst (close (snd (get_session sample_refuse (new_world sample_client)))) = Inr () \<and>
   clock (snd (close (snd (get_session sample_refuse (new_world sample_client))))) = 250 \<and>
   map_option closed
     (the_session (snd (close (snd (get_session sample_refuse (new_world sample_client))))))
     = Some True \<and>
   close (snd (close (snd (get_session sample_refuse (new_world sample_client))))) =
     (Inr (), snd (close (snd (get_session sample_refuse (new_world sample_client)))))"
proof -
  let ?w = "snd (get_session sample_refuse (new_world sample_client))"
  let ?s = "\<lparr>s_base_url = base_url sample_client, s_headers = headers sample_client,
             s_timeout = timeout sample_client, closed = False\<rparr>"
  have b: "the_session ?w = Some ?s \<and> \<not> closed ?s"
    by (simp add: get_session_sample the_session_def deref_def)
  have c: "clock ?w = 0"
    by (simp add: get_session_sample)
  have n: "session (self (new_world sample_client)) = None"
    by (simp add: new_world_def session_sample_client)
  note t1 = close_idempotent [of "new_world sample_client"]
  note t2 = close_idempotent [of ?w]
  from t1 n have 1: "close (new_world sample_client) = (Inr (), new_world sample_client)"
    by blast
  from t2 have 2: "fst (close ?w) = Inr ()" and 3: "close (snd (close ?w)) = (Inr (), snd (close ?w))"
    by blast+
  from t2 b have 4: "the_session (snd (close ?w)) = Some (?s\<lparr>closed := True\<rparr>)"
    and 5: "clock (snd (close ?w)) = clock ?w + 250"
    by blast+
  from 1 2 3 4 5 b c show ?thesis
    by simp
qed

subsection \<open>The file form\<close>

text \<open>
  C9, as the code has it. \<open>prepare_form\<close> gives a form with the single field \<^verbatim>\<open>file\<close>
  for a string path and for a path object whenever the file can be opened for binary
  reading (the error of the operating system is raised otherwise), and for an open stream,
  which is passed through unchanged; for a value of any other type it raises
  \<open>TypeError\<close> with a message that names the type received.
\<close>

theorem prepare_form_shapes:
  "(\<forall>f. open_rb (Path s) = Inr f \<longrightarrow> prepare_form open_rb (FStr s) = Inr [(''file'', f)]) \<and>
   (\<forall>msg. open_rb (Path s) = Inl msg \<longrightarrow> prepare_form open_rb (FStr s) = Inl (OSError msg)) \<and>
   (\<forall>f. open_rb p = Inr f \<longrightarrow> prepare_form open_rb (FPath p) = Inr [(''file'', f)]) \<and>
   (\<forall>msg. open_rb p = Inl msg \<longrightarrow> prepare_form open_rb (FPath p) = Inl (OSError msg)) \<and>
   prepare_form open_rb (FIOBase g) = Inr [(''file'', g)] \<and>
   prepare_form open_rb (FOther tn) =
     Inl (TypeError (''Not supported file type: `'' @ tn @ ''`''))"
  by (simp add: prepare_form_def path_open_def add_field_def)

theorem prepare_form_shapes_witness:
  "sample_open (Path ''report.pdf'') = Inr 3 \<and>
   prepare_form sample_open (FStr ''report.pdf'') = Inr [(''file'', 3)] \<and>
   prepare_form sample_open (FPath (Path ''report.pdf'')) = Inr [(''file'', 3)] \<and>
   sample_open (Path ''missing.bin'') = Inl ''No such file or directory: missing.bin'' \<and>
   prepare_form sample_open (FPath (Path ''missing.bin'')) =
     Inl (OSError ''No such file or directory: missing.bin'') \<and>
   prepare_form sample_open (FIOBase 7) = Inr [(''file'', 7)] \<and>
   prepare_form sample_open (FOther ''int'') = Inl (TypeError ''Not supported file type: `int`'')"
proof -
  have a: "sample_open (Path ''report.pdf'') = Inr 3"
    and b: "sample_open (Path ''missing.bin'') = Inl ''No such file or directory: missing.bin''"
    by simp_all
  note t1 = prepare_form_shapes [of sample_open "''report.pdf''" "Path ''report.pdf''" 7 "''int''"]
  note t2 = prepare_form_shapes [of sample_open "''missing.bin''" "Path ''missing.bin''" 7 "''int''"]
  from t1 a have 1: "prepare_form sample_open (FStr ''report.pdf'') = Inr [(''file'', 3)]"
    and 2: "prepare_form sample_open (FPath (Path ''report.pdf'')) = Inr [(''file'', 3)]"
    by blast+
  from t2 b have 3: "prepare_form sample_open (FPath (Path ''missing.bin'')) =
     Inl (OSError ''No such file or directory: missing.bin'')"
    by blast
  from t1 have 4: "prepare_form sample_open (FIOBase 7) = Inr [(''file'', 7)]"
    and 5: "prepare_form sample_open (FOther ''int'') =
      Inl (TypeError (''Not supported file type: `'' @ ''int'' @ ''`''))"
    by blast+
  from a b 1 2 3 4 5 show ?thesis
    by simp
qed

text \<open>A string path is not enough to succeed: the file has to be there.\<close>

theorem prepare_form_missing_file:
  "prepare_form sample_open (FStr ''missing.bin'') =
     Inl (OSError ''No such file or directory: missing.bin'')"
  by (simp add: prepare_form_def path_open_def)

subsection \<open>The default headers\<close>

text \<open>
  C10. For every input of the constructor, the headers of the client keep every header the
  caller supplied, and hold \<^verbatim>\<open>X-Org-Id\<close> with the string form of the organisation and
  \<^verbatim>\<open>Authorization\<close> with \<^verbatim>\<open>OAuth\<close> and the token wherever the caller supplied no
  header of that name. The concrete client has the headers of the base constructor.
\<close>

theorem default_headers:
  "(\<forall>d v. hdrs = Some d \<and> map_of d k = Some v \<longrightarrow>
      map_of (headers (BaseClient_init org token hdrs host ver)) k = Some v) \<and>
   (hdrs = None \<or> (\<exists>d. hdrs = Some d \<and> map_of d ''X-Org-Id'' = None) \<longrightarrow>
      map_of (headers (BaseClient_init org token hdrs host ver)) ''X-Org-Id'' = Some (str org)) \<and>
   (hdrs = None \<or> (\<exists>d. hdrs = Some d \<and> map_of d ''Authorization'' = None) \<longrightarrow>
      map_of (headers (BaseClient_init org token hdrs host ver)) ''Authorization'' =
        Some (''OAuth '' @ token)) \<and>
   headers (AIOHTTPClient_init org token hdrs host ver t) =
     headers (BaseClient_init org token hdrs host ver)"
  by (cases hdrs)
    (auto simp: BaseClient_init_def Let_def map_of_setdefault AIOHTTPClient_init_fields)

theorem default_headers_witness:
  "map_of [(''Authorization'', ''Bearer x'')] ''Authorization'' = Some ''Bearer x'' \<and>
   map_of [(''Authorization'', ''Bearer x'')] ''X-Org-Id'' = None \<and>
   map_of (headers (BaseClient_init (OrgInt 42) ''secret'' (Some [(''Authorization'', ''Bearer x'')])
                      None None)) ''Authorization'' = Some ''Bearer x'' \<and>
   map_of (headers (BaseClient_init (OrgInt 42) ''secret'' (Some [(''Authorization'', ''Bearer x'')])
                      None None)) ''X-Org-Id'' = Some ''42'' \<and>
   map_of (headers (BaseClient_init (OrgStr ''acme'') ''secret'' None None None)) ''Authorization''
     = Some ''OAuth secret''"
proof -
  have a: "map_of [(''Authorization'', ''Bearer x'')] ''Authorization'' = Some ''Bearer x''"
    and b: "map_of [(''Authorization'', ''Bearer x'')] ''X-Org-Id'' = None"
    by simp_all
  have s: "str (OrgInt 42) = ''42''"
    by (simp add: str_nat.simps)
  note t1 = default_headers [where hdrs = "Some [(''Authorization'', ''Bearer x'')]"
      and k = "''Authorization''" and org = "OrgInt 42" and token = "''secret''" and host = None
      and ver = None]
  note t2 = default_headers [where hdrs = None and org = "OrgStr ''acme''"
      and token = "''secret''" and host = None and ver = None]
  from t1 a have 1: "map_of (headers (BaseClient_init (OrgInt 42) ''secret''
      (Some [(''Authorization'', ''Bearer x'')]) None None)) ''Authorization'' = Some ''Bearer x''"
    by blast
  from t1 b have 2: "map_of (headers (BaseClient_init (OrgInt 42) ''secret''
      (Some [(''Authorization'', ''Bearer x'')]) None None)) ''X-Org-Id'' = Some (str (OrgInt 42))"
    by blast
  from t2 have 3: "map_of (headers (BaseClient_init (OrgStr ''acme'') ''secret'' None None None))
      ''Authorization'' = Some (''OAuth '' @ ''secret'')"
    by blast
  from a b 1 2 3 s show ?thesis
    by simp
qed

end
